theory Spec2Isabelle
  imports Complex_Main
begin

section \<open>Strings\<close>

text \<open>
  A JavaScript string is a sequence of UTF-16 code units; a code unit is modelled by its
  number. \<open>js\<close> turns an ASCII literal of the source into such a sequence.
\<close>

type_synonym jsstring = "nat list"

definition js :: "string \<Rightarrow> jsstring" where
  "js s = map of_char s"

text \<open>
  \<open>String.prototype.toLowerCase\<close>. The source only compares its result with the ASCII
  words \<open>positive\<close>, \<open>neutral\<close>, \<open>negative\<close> and \<open>urgent\<close>. The only code unit
  outside ASCII whose lower case lies inside ASCII is the Kelvin sign (to \<open>k\<close>), a letter
  none of the four words has, so for these comparisons it is enough to map \<open>A\<close>..\<open>Z\<close> to
  \<open>a\<close>..\<open>z\<close> and to leave every other code unit alone.
\<close>

definition lowerUnit :: "nat \<Rightarrow> nat" where
  "lowerUnit c = (if 65 \<le> c \<and> c \<le> 90 then c + 32 else c)"

definition toLowerCase :: "jsstring \<Rightarrow> jsstring" where
  "toLowerCase s = map lowerUnit s"

text \<open>
  \<open>String.prototype.trim\<close> removes the white space and line terminators of ECMAScript
  from both ends: TAB, LF, VT, FF, CR, SP, NBSP, U+1680, U+2000..U+200A, U+2028, U+2029,
  U+202F, U+205F, U+3000 and U+FEFF.
\<close>

definition isWhiteSpace :: "nat \<Rightarrow> bool" where
  "isWhiteSpace c \<longleftrightarrow>
     (9 \<le> c \<and> c \<le> 13) \<or> c = 32 \<or> c = 160 \<or> c = 5760 \<or> (8192 \<le> c \<and> c \<le> 8202) \<or>
     c = 8232 \<or> c = 8233 \<or> c = 8239 \<or> c = 8287 \<or> c = 12288 \<or> c = 65279"

definition trim :: "jsstring \<Rightarrow> jsstring" where
  "trim s = rev (dropWhile isWhiteSpace (rev (dropWhile isWhiteSpace s)))"

text \<open>\<open>x || d\<close> on a string that may be missing: \<open>undefined\<close>, \<open>null\<close> and \<open>''\<close> are falsy.\<close>

fun orDefault :: "jsstring option \<Rightarrow> jsstring \<Rightarrow> jsstring" where
  "orDefault None d = d"
| "orDefault (Some []) d = d"
| "orDefault (Some v) d = v"

text \<open>A value put into a template literal or a DOM string: \<open>undefined\<close> prints as such.\<close>

fun toDOMString :: "jsstring option \<Rightarrow> jsstring" where
  "toDOMString None = js ''undefined''"
| "toDOMString (Some v) = v"

section \<open>Data model\<close>

text \<open>
  The records of \<open>GET /fetch_emails\<close>. A field that the JSON leaves out (or gives as
  \<open>null\<close>) is \<open>None\<close>; where present, the fields are strings, as the backend sends them.
\<close>

record extracted_info =
  customer_name :: "jsstring option"
  request_summary :: "jsstring option"
  sentiment :: "jsstring option"
  priority :: "jsstring option"
  contact_details :: "jsstring option"

record email =
  email_id :: jsstring
  subject :: "jsstring option"
  sender :: "jsstring option"
  body :: "jsstring option"
  timestamp :: "jsstring option"
  status :: "jsstring option"
  extractedInfo :: "extracted_info option"

text \<open>The payload of the three POST endpoints: \<open>{status, ai_response?, message?}\<close>.\<close>

record api_reply =
  reply_status :: "jsstring option"
  ai_response :: "jsstring option"
  message :: "jsstring option"

text \<open>
  What an awaited \<open>fetch\<close> followed by \<open>response.json()\<close> can give: the fetch promise
  rejects (network failure), or a response arrives with its HTTP status and a body that
  parses as JSON (\<open>Some\<close>) or does not (\<open>None\<close>, \<open>response.json()\<close> rejects).
  \<open>response.ok\<close> is true for a status from 200 to 299.
\<close>

datatype 'a fetch_result = Rejected | Response nat "'a option"

definition ok :: "nat \<Rightarrow> bool" where
  "ok st \<longleftrightarrow> 200 \<le> st \<and> st \<le> 299"

datatype js_error =
    FetchRejected
  | JsonSyntaxError
  | HttpError nat
  | AppError "jsstring option"

text \<open>How a call of a function ends: it throws, or it returns a value.\<close>

datatype 'a completion = Throws js_error | Returns 'a

section \<open>The page and the state of the script\<close>

record request =
  http_method :: string
  url :: string
  payload :: "(string \<times> jsstring option) list"

datatype log_entry =
    ConsoleLog jsstring "jsstring option"
  | ConsoleError jsstring "js_error option"

datatype toast_type = ToastSuccess | ToastError | ToastWarning

record toast =
  bgColor :: string
  icon :: jsstring
  toast_message :: jsstring

text \<open>\<open>new Date(t).toLocaleString()\<close> is kept as a term: the locale decides its text.\<close>

datatype date_text = NA | LocaleString "jsstring option"

record card =
  data_email_id :: jsstring
  border_class :: string
  status_class :: string
  status_text :: jsstring
  sentiment_class :: string
  sentiment_text :: jsstring
  priority_class :: string
  priority_text :: jsstring
  customer_text :: jsstring
  summary_text :: jsstring
  from_text :: jsstring
  time_text :: date_text

text \<open>\<open>emailListView.innerHTML\<close>: the markup of the page, or one of the four things the
  script writes there.\<close>

datatype list_content =
    Markup
  | Spinner
  | EmptyState
  | ErrorMessage jsstring
  | Cards "card list"

record analytics_panel =
  total_emails :: nat
  resolved_count :: nat
  pending_count :: nat
  resolved_bar :: real
  sentiment_positive_bar :: real
  sentiment_neutral_bar :: real
  sentiment_negative_bar :: real
  priority_urgent_bar :: real
  priority_not_urgent_bar :: real

text \<open>
  The elements of the Detail view that \<open>showEmailDetail\<close> looks up and tests before it
  writes to them: \<open>None\<close> is an element the page does not have, \<open>Some t\<close> its text.
\<close>

record detail_panel =
  email_subject :: "jsstring option"
  email_sender :: "jsstring option"
  email_date :: "date_text option"
  email_body :: "jsstring option"
  extracted_customer_name :: "jsstring option"
  extracted_request_summary :: "jsstring option"
  extracted_sentiment :: "jsstring option"
  extracted_priority :: "jsstring option"
  extracted_contact_details :: "jsstring option"

record editor =
  editor_value :: jsstring
  editor_disabled :: bool

record button =
  disabled :: bool
  textContent :: jsstring

record send_button = button +
  dataset_emailId :: "jsstring option"

text \<open>
  The three globals of the script, the elements it reads and writes, and what it sends out:
  the console, the requests issued, and the periods (in ms) of the intervals registered
  with \<open>setInterval\<close>. The script keeps no handle of an interval and never calls
  \<open>clearInterval\<close>. The elements behind the top-level constants and those that
  \<open>updateAnalytics\<close> dereferences without a test are always there; the toast container
  and the response editor are tested by the source, so they are optional. The timed
  fade-in, fade-out and removal of a toast are presentation and are left out.
\<close>

record app_state =
  currentUserId :: "jsstring option"
  emailsData :: "email list"
  isAuthReady :: bool
  userIdDisplay :: jsstring
  listContent :: list_content
  listHidden :: bool
  detailHidden :: bool
  analytics :: analytics_panel
  detail :: detail_panel
  aiResponseEditor :: "editor option"
  sendResponseBtn :: send_button
  seedDbBtn :: button
  toastContainer :: "toast list option"
  console :: "log_entry list"
  requests :: "request list"
  intervals :: "nat list"

section \<open>Notifications and placeholders\<close>

definition showToast :: "jsstring \<Rightarrow> toast_type \<Rightarrow> app_state \<Rightarrow> app_state" where
  "showToast msg ty s =
     (case toastContainer s of
        None \<Rightarrow> s\<lparr>console := console s @ [ConsoleError (js ''Toast container not found.'') None]\<rparr>
      | Some ts \<Rightarrow>
          s\<lparr>toastContainer := Some (ts @
             [case ty of
                ToastError \<Rightarrow> \<lparr>bgColor = ''bg-red-500'', icon = [0xD83D, 0xDEAB], toast_message = msg\<rparr>
              | ToastWarning \<Rightarrow> \<lparr>bgColor = ''bg-yellow-500'', icon = [0x26A0, 0xFE0F], toast_message = msg\<rparr>
              | ToastSuccess \<Rightarrow> \<lparr>bgColor = ''bg-green-500'', icon = [0x2705], toast_message = msg\<rparr>])\<rparr>)"

definition showEmptyState :: "app_state \<Rightarrow> app_state" where
  "showEmptyState s = s\<lparr>listContent := EmptyState\<rparr>"

definition showErrorMessage :: "jsstring \<Rightarrow> app_state \<Rightarrow> app_state" where
  "showErrorMessage msg s = s\<lparr>listContent := ErrorMessage msg\<rparr>"

section \<open>Rendering the list\<close>

text \<open>\<open>e.extractedInfo?.sentiment?.toLowerCase()\<close> and the same for the priority:
  \<open>undefined\<close> (\<open>None\<close>) when the sub-record or the field is missing.\<close>

definition sentimentLower :: "email \<Rightarrow> jsstring option" where
  "sentimentLower e =
     (case extractedInfo e of None \<Rightarrow> None | Some i \<Rightarrow> map_option toLowerCase (sentiment i))"

definition priorityLower :: "email \<Rightarrow> jsstring option" where
  "priorityLower e =
     (case extractedInfo e of None \<Rightarrow> None | Some i \<Rightarrow> map_option toLowerCase (priority i))"

definition infoField :: "(extracted_info \<Rightarrow> jsstring option) \<Rightarrow> email \<Rightarrow> jsstring option" where
  "infoField f e = (case extractedInfo e of None \<Rightarrow> None | Some i \<Rightarrow> f i)"

definition renderCard :: "email \<Rightarrow> card" where
  "renderCard e =
     (let st = orDefault (status e) (js ''N/A'') in
      \<lparr>data_email_id = email_id e,
       border_class = (if st = js ''pending'' then ''border-indigo-500'' else ''border-green-500''),
       status_class = (if status e = Some (js ''resolved'') then ''bg-green-500/20 text-green-700''
                       else ''bg-blue-500/20 text-blue-700''),
       status_text = st,
       sentiment_class =
         (if sentimentLower e = Some (js ''positive'') then ''bg-green-500/10 text-green-500''
          else if sentimentLower e = Some (js ''negative'') then ''bg-red-500/10 text-red-500''
          else ''bg-yellow-500/10 text-yellow-500''),
       sentiment_text = orDefault (infoField sentiment e) (js ''N/A''),
       priority_class =
         (if priorityLower e = Some (js ''urgent'') then ''bg-red-500 text-white font-bold''
          else ''bg-gray-400 text-gray-800''),
       priority_text = orDefault (infoField priority e) (js ''N/A''),
       customer_text = orDefault (infoField customer_name e) (js ''Unknown User''),
       summary_text = orDefault (infoField request_summary e) (js ''No summary available.''),
       from_text = toDOMString (sender e),
       time_text = (case timestamp e of None \<Rightarrow> NA | Some [] \<Rightarrow> NA
                    | Some t \<Rightarrow> LocaleString (Some t))\<rparr>)"

definition renderEmailList :: "email list \<Rightarrow> app_state \<Rightarrow> app_state" where
  "renderEmailList emails s = s\<lparr>listContent := Cards (map renderCard emails)\<rparr>"

section \<open>Analytics\<close>

record sentiment_counts =
  positive :: nat
  neutral :: nat
  negative :: nat

record priority_counts =
  urgent :: nat
  notUrgent :: nat

text \<open>The five aggregates that \<open>loadEmails\<close> computes from the collection it fetched.\<close>

definition resolvedCount :: "email list \<Rightarrow> nat" where
  "resolvedCount es = length (filter (\<lambda>e. status e = Some (js ''resolved'')) es)"

definition pendingCount :: "email list \<Rightarrow> nat" where
  "pendingCount es = length (filter (\<lambda>e. status e \<noteq> Some (js ''resolved'')) es)"

definition sentimentCounts :: "email list \<Rightarrow> sentiment_counts" where
  "sentimentCounts es =
     \<lparr>positive = length (filter (\<lambda>e. sentimentLower e = Some (js ''positive'')) es),
      neutral = length (filter (\<lambda>e. sentimentLower e = Some (js ''neutral'')) es),
      negative = length (filter (\<lambda>e. sentimentLower e = Some (js ''negative'')) es)\<rparr>"

definition priorityCounts :: "email list \<Rightarrow> priority_counts" where
  "priorityCounts es =
     \<lparr>urgent = length (filter (\<lambda>e. priorityLower e = Some (js ''urgent'')) es),
      notUrgent = length (filter (\<lambda>e. priorityLower e \<noteq> Some (js ''urgent'')) es)\<rparr>"

text \<open>
  \<open>(count / total) * 100\<close>, the number put before \<open>%\<close> in a bar's width. The source
  computes it in double precision; the model keeps the exact quotient.
\<close>

definition percentage :: "nat \<Rightarrow> nat \<Rightarrow> real" where
  "percentage cnt tot = (real cnt / real tot) * 100"

definition updateAnalytics ::
  "nat \<Rightarrow> nat \<Rightarrow> nat \<Rightarrow> sentiment_counts \<Rightarrow> priority_counts \<Rightarrow> app_state \<Rightarrow> app_state" where
  "updateAnalytics tot resolved pending sc pc s =
     (let a1 = (analytics s)\<lparr>total_emails := tot, resolved_count := resolved,
                              pending_count := pending\<rparr>;
          resolvedPercentage = (if tot > 0 then percentage resolved tot else 0);
          a2 = a1\<lparr>resolved_bar := resolvedPercentage\<rparr>;
          totalSentiment = positive sc + neutral sc + negative sc;
          a3 = (if totalSentiment > 0
                then a2\<lparr>sentiment_positive_bar := percentage (positive sc) totalSentiment,
                        sentiment_neutral_bar := percentage (neutral sc) totalSentiment,
                        sentiment_negative_bar := percentage (negative sc) totalSentiment\<rparr>
                else a2);
          totalPriority = urgent pc + notUrgent pc;
          a4 = (if totalPriority > 0
                then a3\<lparr>priority_urgent_bar := percentage (urgent pc) totalPriority,
                        priority_not_urgent_bar := percentage (notUrgent pc) totalPriority\<rparr>
                else a3)
      in s\<lparr>analytics := a4\<rparr>)"

section \<open>Loading the collection\<close>

text \<open>A value in a condition: \<open>null\<close> and the empty string are falsy.\<close>

fun truthy :: "jsstring option \<Rightarrow> bool" where
  "truthy None = False"
| "truthy (Some v) = (v \<noteq> [])"

definition issue :: "request \<Rightarrow> app_state \<Rightarrow> app_state" where
  "issue rq s = s\<lparr>requests := requests s @ [rq]\<rparr>"

definition consoleLog :: "log_entry \<Rightarrow> app_state \<Rightarrow> app_state" where
  "consoleLog l s = s\<lparr>console := console s @ [l]\<rparr>"

text \<open>The body of the \<open>try\<close> of \<open>loadEmails\<close>, after the request has gone out.\<close>

definition loadEmails_try :: "email list fetch_result \<Rightarrow> app_state \<Rightarrow> js_error + app_state" where
  "loadEmails_try r s =
     (case r of
        Rejected \<Rightarrow> Inl FetchRejected
      | Response st parsed \<Rightarrow>
          if \<not> ok st then Inl (HttpError st)
          else (case parsed of
                  None \<Rightarrow> Inl JsonSyntaxError
                | Some es \<Rightarrow>
                    let s1 = s\<lparr>emailsData := es\<rparr>;
                        s2 = (if length es = 0 then showEmptyState s1 else renderEmailList es s1)
                    in Inr (updateAnalytics (length es) (resolvedCount es) (pendingCount es)
                              (sentimentCounts es) (priorityCounts es) s2)))"

definition loadEmails :: "email list fetch_result \<Rightarrow> app_state \<Rightarrow> app_state" where
  "loadEmails r s =
     (if \<not> truthy (currentUserId s)
      then consoleLog (ConsoleLog (js ''Waiting for user authentication...'') None) s
      else
        let s1 = s\<lparr>listContent := Spinner\<rparr>;
            s2 = issue \<lparr>http_method = ''GET'', url = ''./fetch_emails'', payload = []\<rparr> s1
        in case loadEmails_try r s2 of
             Inr s3 \<Rightarrow> s3
           | Inl err \<Rightarrow>
               showErrorMessage (js ''Failed to load emails. Please check your network.'')
                 (showToast (js ''Failed to load emails. Please try again later. '' @ [0x26A0, 0xFE0F])
                    ToastError
                    (consoleLog (ConsoleError (js ''Error fetching emails:'') (Some err)) s2)))"

section \<open>Requesting a draft\<close>

text \<open>The body of the \<open>try\<close> of \<open>getAIResponse\<close>, after the request has gone out.\<close>

definition getAIResponse_try :: "api_reply fetch_result \<Rightarrow> jsstring option completion" where
  "getAIResponse_try r =
     (case r of
        Rejected \<Rightarrow> Throws FetchRejected
      | Response st parsed \<Rightarrow>
          if \<not> ok st then Throws (HttpError st)
          else (case parsed of
                  None \<Rightarrow> Throws JsonSyntaxError
                | Some data \<Rightarrow>
                    if reply_status data = Some (js ''success'') then Returns (ai_response data)
                    else Throws (AppError (message data))))"

definition fallbackResponse :: jsstring where
  "fallbackResponse = js ''Failed to generate AI response. Please try again.''"

definition getAIResponse ::
  "jsstring option \<Rightarrow> api_reply fetch_result \<Rightarrow> app_state \<Rightarrow> jsstring option completion \<times> app_state" where
  "getAIResponse emailBody r s =
     (let s1 = issue \<lparr>http_method = ''POST'', url = ''./generate_response'',
                      payload = [(''email_body'', emailBody)]\<rparr> s
      in case getAIResponse_try r of
           Returns v \<Rightarrow> (Returns v, s1)
         | Throws err \<Rightarrow>
             (Returns (Some fallbackResponse),
              showToast (js ''Failed to generate AI response. '' @ [0xD83D, 0xDEAB]) ToastError
                (consoleLog (ConsoleError (js ''Error generating AI response:'') (Some err)) s1)))"

section \<open>Polling\<close>

text \<open>The callback that \<open>startPolling\<close> hands to \<open>setInterval\<close>, run at one tick.\<close>

definition pollTick :: "email list fetch_result \<Rightarrow> app_state \<Rightarrow> app_state" where
  "pollTick r s = (if listHidden s = False then loadEmails r s else s)"

definition startPolling :: "app_state \<Rightarrow> app_state" where
  "startPolling s = s\<lparr>intervals := intervals s @ [30000]\<rparr>"

section \<open>The Detail view\<close>

text \<open>\<open>if (el) el.textContent = t\<close>: nothing happens when the page has no such element.\<close>

definition setIfPresent :: "'a \<Rightarrow> 'a option \<Rightarrow> 'a option" where
  "setIfPresent v el = (case el of None \<Rightarrow> None | Some old \<Rightarrow> Some v)"

definition showEmailDetail :: "email \<Rightarrow> api_reply fetch_result \<Rightarrow> app_state \<Rightarrow> app_state" where
  "showEmailDetail e r s =
     (let s1 = s\<lparr>listHidden := True, detailHidden := False\<rparr>;
          d = detail s1;
          s2 = s1\<lparr>detail :=
                 \<lparr>email_subject = setIfPresent (orDefault (subject e) (js ''No Subject'')) (email_subject d),
                  email_sender = setIfPresent (orDefault (sender e) (js ''Unknown'')) (email_sender d),
                  email_date = setIfPresent (LocaleString (timestamp e)) (email_date d),
                  email_body = setIfPresent (orDefault (body e) (js ''No content available.'')) (email_body d),
                  extracted_customer_name =
                    setIfPresent (orDefault (infoField customer_name e) (js ''N/A'')) (extracted_customer_name d),
                  extracted_request_summary =
                    setIfPresent (orDefault (infoField request_summary e) (js ''N/A'')) (extracted_request_summary d),
                  extracted_sentiment =
                    setIfPresent (orDefault (infoField sentiment e) (js ''N/A'')) (extracted_sentiment d),
                  extracted_priority =
                    setIfPresent (orDefault (infoField priority e) (js ''N/A'')) (extracted_priority d),
                  extracted_contact_details =
                    setIfPresent (orDefault (infoField contact_details e) (js ''N/A''))
                      (extracted_contact_details d)\<rparr>\<rparr>;
          s3 = s2\<lparr>aiResponseEditor :=
                 setIfPresent \<lparr>editor_value = js ''AI is drafting a response...'', editor_disabled = True\<rparr>
                   (aiResponseEditor s2)\<rparr>
      in case getAIResponse (body e) r s3 of
           (Throws err, s4) \<Rightarrow> s4
         | (Returns aiResponse, s4) \<Rightarrow>
             let s5 = s4\<lparr>aiResponseEditor :=
                        setIfPresent \<lparr>editor_value = toDOMString aiResponse, editor_disabled = False\<rparr>
                          (aiResponseEditor s4)\<rparr>
             in s5\<lparr>sendResponseBtn := (sendResponseBtn s5)\<lparr>dataset_emailId := Some (email_id e)\<rparr>\<rparr>)"

text \<open>
  The click listener of the list. \<open>clicked\<close> is the \<open>data-email-id\<close> of the card that
  \<open>event.target.closest('.email-card')\<close> finds, \<open>None\<close> for a click outside every card.
\<close>

definition emailListView_click ::
  "jsstring option \<Rightarrow> api_reply fetch_result \<Rightarrow> app_state \<Rightarrow> app_state" where
  "emailListView_click clicked r s =
     (case clicked of
        None \<Rightarrow> s
      | Some emailId \<Rightarrow>
          (case find (\<lambda>e. email_id e = emailId) (emailsData s) of
             None \<Rightarrow> s
           | Some e \<Rightarrow> showEmailDetail e r s))"

definition goBackBtn_click :: "email list fetch_result \<Rightarrow> app_state \<Rightarrow> app_state" where
  "goBackBtn_click r s = loadEmails r (s\<lparr>detailHidden := True, listHidden := False\<rparr>)"

section \<open>Submitting a response\<close>

text \<open>The body of the \<open>try\<close> of a POST whose reply is only tested for \<open>status\<close>
  (the listeners of the send and of the seed button do not test \<open>response.ok\<close>).\<close>

definition postReply_try :: "api_reply fetch_result \<Rightarrow> unit completion" where
  "postReply_try r =
     (case r of
        Rejected \<Rightarrow> Throws FetchRejected
      | Response st parsed \<Rightarrow>
          (case parsed of
             None \<Rightarrow> Throws JsonSyntaxError
           | Some data \<Rightarrow>
               if reply_status data = Some (js ''success'') then Returns ()
               else Throws (AppError (message data))))"

text \<open>
  The click listener of the send button: \<open>r\<close> is the outcome of the POST, \<open>lr\<close> that of
  the reload which \<open>goBackBtn.click()\<close> starts after a success. A page without the editor
  makes the first statement throw, and the listener ends there.
\<close>

definition sendResponseBtn_click ::
  "api_reply fetch_result \<Rightarrow> email list fetch_result \<Rightarrow> app_state \<Rightarrow> app_state" where
  "sendResponseBtn_click r lr s =
     (case aiResponseEditor s of
        None \<Rightarrow> s
      | Some ed \<Rightarrow>
          let emailId = dataset_emailId (sendResponseBtn s);
              finalResponse = editor_value ed
          in if trim finalResponse = []
             then showToast (js ''Please write a response before sending. '' @ [0x26A0, 0xFE0F])
                    ToastWarning s
             else
               let s1 = s\<lparr>sendResponseBtn :=
                          (sendResponseBtn s)\<lparr>disabled := True, textContent := js ''Sending...''\<rparr>\<rparr>;
                   s2 = issue \<lparr>http_method = ''POST'', url = ''./update_email_status'',
                                payload = [(''email_id'', emailId),
                                           (''final_response'', Some finalResponse)]\<rparr> s1;
                   s3 = (case postReply_try r of
                           Returns u \<Rightarrow>
                             goBackBtn_click lr
                               (showToast (js ''Response sent successfully! '' @ [0x2705]) ToastSuccess s2)
                         | Throws err \<Rightarrow>
                             consoleLog (ConsoleError (js ''Error sending response:'') (Some err))
                               (showToast (js ''Failed to send response. Please try again. ''
                                             @ [0xD83D, 0xDEAB]) ToastError s2))
               in s3\<lparr>sendResponseBtn :=
                      (sendResponseBtn s3)\<lparr>disabled := False, textContent := js ''Send Response''\<rparr>\<rparr>)"

definition seedDbBtn_click ::
  "api_reply fetch_result \<Rightarrow> email list fetch_result \<Rightarrow> app_state \<Rightarrow> app_state" where
  "seedDbBtn_click r lr s =
     (let s1 = s\<lparr>seedDbBtn := (seedDbBtn s)\<lparr>disabled := True, textContent := js ''Seeding...''\<rparr>\<rparr>;
          s2 = showToast (js ''Seeding database with mock emails...'') ToastWarning s1;
          s3 = issue \<lparr>http_method = ''POST'', url = ''./seed_emails'', payload = []\<rparr> s2;
          s4 = (case postReply_try r of
                  Returns u \<Rightarrow>
                    loadEmails lr
                      (showToast (js ''Database seeded successfully! '' @ [0x2705]) ToastSuccess s3)
                | Throws err \<Rightarrow>
                    consoleLog (ConsoleError (js ''Error seeding database:'') (Some err))
                      (showToast (js ''Failed to seed database. It may already be seeded. ''
                                    @ [0xD83D, 0xDEAB]) ToastError s3))
      in s4\<lparr>seedDbBtn := (seedDbBtn s4)\<lparr>disabled := False, textContent := js ''Seed Database''\<rparr>\<rparr>)"

section \<open>Session bootstrap\<close>

text \<open>
  The callback of \<open>onAuthStateChanged\<close>: \<open>user\<close> is the \<open>uid\<close> of the signed-in user
  or \<open>None\<close>; \<open>signedIn\<close> tells whether \<open>signInAnonymously\<close> resolves; \<open>r\<close> is the
  outcome of the first load.
\<close>

definition onAuthStateChanged ::
  "jsstring option \<Rightarrow> bool \<Rightarrow> email list fetch_result \<Rightarrow> app_state \<Rightarrow> app_state" where
  "onAuthStateChanged user signedIn r s =
     (case user of
        Some uid \<Rightarrow>
          let s1 = s\<lparr>currentUserId := Some uid, userIdDisplay := uid, isAuthReady := True\<rparr>;
              s2 = consoleLog (ConsoleLog (js ''User signed in with UID:'') (Some uid)) s1
          in startPolling (loadEmails r s2)
      | None \<Rightarrow>
          let s1 = consoleLog (ConsoleLog (js ''No user signed in. Signing in anonymously.'') None) s
          in if signedIn then s1
             else showToast (js ''Authentication failed. Please check your Firebase setup. ''
                               @ [0xD83D, 0xDEAB]) ToastError
                    ((consoleLog (ConsoleError (js ''Authentication failed:'') None) s1)
                       \<lparr>isAuthReady := True\<rparr>))"

section \<open>Runs of the script\<close>

text \<open>
  Everything that can call into the script, each together with the outcomes of the
  requests its handler awaits. A handler is run to its end in one step; what happens
  between an \<open>await\<close> and its continuation is not part of the model.
\<close>

datatype event =
    AuthStateChanged "jsstring option" bool "email list fetch_result"
  | IntervalTick "email list fetch_result"
  | CardClick "jsstring option" "api_reply fetch_result"
  | GoBackClick "email list fetch_result"
  | SendClick "api_reply fetch_result" "email list fetch_result"
  | SeedClick "api_reply fetch_result" "email list fetch_result"

fun handle :: "event \<Rightarrow> app_state \<Rightarrow> app_state" where
  "handle (AuthStateChanged user signedIn r) s = onAuthStateChanged user signedIn r s"
| "handle (IntervalTick r) s = pollTick r s"
| "handle (CardClick clicked r) s = emailListView_click clicked r s"
| "handle (GoBackClick r) s = goBackBtn_click r s"
| "handle (SendClick r lr) s = sendResponseBtn_click r lr s"
| "handle (SeedClick r lr) s = seedDbBtn_click r lr s"

text \<open>A tick needs an interval; the other events can come at any time.\<close>

fun enabled :: "event \<Rightarrow> app_state \<Rightarrow> bool" where
  "enabled (IntervalTick r) s = (intervals s \<noteq> [])"
| "enabled ev s = True"

text \<open>
  Modelled from the spec: the markup of the page is not among the sources. The script
  starts with its three globals as declared (\<open>null\<close>, \<open>[]\<close>, \<open>false\<close>), nothing logged,
  sent or scheduled, and the page in the List view, the initial state of the view
  controller; the other elements hold whatever the markup gives them.
\<close>

definition initial :: "app_state \<Rightarrow> bool" where
  "initial s \<longleftrightarrow>
     currentUserId s = None \<and> emailsData s = [] \<and> isAuthReady s = False \<and>
     listHidden s = False \<and> detailHidden s = True \<and>
     console s = [] \<and> requests s = [] \<and> intervals s = []"

inductive reachable :: "app_state \<Rightarrow> bool" where
  start: "initial s \<Longrightarrow> reachable s"
| step: "reachable s \<Longrightarrow> enabled ev s \<Longrightarrow> reachable (handle ev s)"

text \<open>The state after a sequence of events, the first of the list first.\<close>

fun run :: "event list \<Rightarrow> app_state \<Rightarrow> app_state" where
  "run [] s = s"
| "run (ev # evs) s = run evs (handle ev s)"

section \<open>The list's listener without its test\<close>

text \<open>
  For comparison with the source, the listener as the specification describes it:
  unguarded, it hands whatever the lookup gives to \<open>showEmailDetail\<close>. Run on
  \<open>undefined\<close>, the body of \<open>showEmailDetail\<close> switches the two views and then stops
  with a TypeError at its first read of a field of the record: at the first of the nine
  detail elements that the page has or, on a page with none of them, at the argument of
  \<open>getAIResponse\<close>, after the editor has been given its placeholder.
\<close>

definition showEmailDetail_undefined :: "app_state \<Rightarrow> app_state" where
  "showEmailDetail_undefined s =
     (let s1 = s\<lparr>listHidden := True, detailHidden := False\<rparr>;
          d = detail s1
      in if email_subject d \<noteq> None \<or> email_sender d \<noteq> None \<or> email_date d \<noteq> None \<or>
            email_body d \<noteq> None \<or> extracted_customer_name d \<noteq> None \<or>
            extracted_request_summary d \<noteq> None \<or> extracted_sentiment d \<noteq> None \<or>
            extracted_priority d \<noteq> None \<or> extracted_contact_details d \<noteq> None
         then s1
         else s1\<lparr>aiResponseEditor :=
                  setIfPresent \<lparr>editor_value = js ''AI is drafting a response...'', editor_disabled = True\<rparr>
                    (aiResponseEditor s1)\<rparr>)"

definition emailListView_click_unguarded ::
  "jsstring option \<Rightarrow> api_reply fetch_result \<Rightarrow> app_state \<Rightarrow> app_state" where
  "emailListView_click_unguarded clicked r s =
     (case clicked of
        None \<Rightarrow> s
      | Some emailId \<Rightarrow>
          (case find (\<lambda>e. email_id e = emailId) (emailsData s) of
             None \<Rightarrow> showEmailDetail_undefined s
           | Some e \<Rightarrow> showEmailDetail e r s))"

section \<open>Example states\<close>

text \<open>A page as it may look before the script has done anything, one record of the
  backend, and the page once a user is signed in.\<close>

definition examplePage :: app_state where
  "examplePage =
     \<lparr>currentUserId = None, emailsData = [], isAuthReady = False, userIdDisplay = [],
      listContent = Markup, listHidden = False, detailHidden = True,
      analytics = \<lparr>total_emails = 0, resolved_count = 0, pending_count = 0, resolved_bar = 0,
                   sentiment_positive_bar = 0, sentiment_neutral_bar = 0,
                   sentiment_negative_bar = 0, priority_urgent_bar = 0,
                   priority_not_urgent_bar = 0\<rparr>,
      detail = \<lparr>email_subject = Some [], email_sender = Some [], email_date = Some NA,
                email_body = Some [], extracted_customer_name = Some [],
                extracted_request_summary = Some [], extracted_sentiment = Some [],
                extracted_priority = Some [], extracted_contact_details = Some []\<rparr>,
      aiResponseEditor = Some \<lparr>editor_value = [], editor_disabled = False\<rparr>,
      sendResponseBtn = \<lparr>disabled = False, textContent = js ''Send Response'',
                         dataset_emailId = None\<rparr>,
      seedDbBtn = \<lparr>disabled = False, textContent = js ''Seed Database''\<rparr>,
      toastContainer = Some [], console = [], requests = [], intervals = []\<rparr>"

definition exampleEmail :: email where
  "exampleEmail =
     \<lparr>email_id = js ''x1'', subject = Some (js ''Help''), sender = Some (js ''a@b.c''),
      body = Some (js ''My order is late''), timestamp = Some (js ''2025-01-01T00:00:00Z''),
      status = Some (js ''pending''),
      extractedInfo = Some \<lparr>customer_name = Some (js ''Ann''), request_summary = None,
                             sentiment = Some (js ''PoSiTiVe''), priority = Some (js ''URGENT''),
                             contact_details = None\<rparr>\<rparr>"

definition signedInPage :: app_state where
  "signedInPage =
     examplePage\<lparr>currentUserId := Some (js ''u1''), userIdDisplay := js ''u1'',
                 isAuthReady := True\<rparr>"

text \<open>The page after a first load of one record, the page after sign-in with the
  first load done and polling started, that page in the Detail view after a click on the
  card (the draft request failing), two pages with a blank and with a written draft in
  the editor, and two replies of the backend.\<close>

definition loadedPage :: app_state where
  "loadedPage = loadEmails (Response 200 (Some [exampleEmail])) signedInPage"

definition pollingPage :: app_state where
  "pollingPage =
     handle (AuthStateChanged (Some (js ''u1'')) True (Response 200 (Some [exampleEmail])))
       examplePage"

definition detailPage :: app_state where
  "detailPage = handle (CardClick (Some (js ''x1'')) Rejected) pollingPage"

definition blankDraftPage :: app_state where
  "blankDraftPage =
     signedInPage\<lparr>listHidden := True, detailHidden := False,
        aiResponseEditor := Some \<lparr>editor_value = [32, 9, 160, 10], editor_disabled = False\<rparr>\<rparr>"

definition draftPage :: app_state where
  "draftPage =
     signedInPage\<lparr>listHidden := True, detailHidden := False,
        aiResponseEditor := Some \<lparr>editor_value = js ''Dear Ann, sorry.'', editor_disabled = False\<rparr>\<rparr>"

definition successReply :: api_reply where
  "successReply = \<lparr>reply_status = Some (js ''success''), ai_response = Some (js ''Dear Ann''),
                    message = None\<rparr>"

definition errorReply :: api_reply where
  "errorReply = \<lparr>reply_status = Some (js ''error''), ai_response = None,
                  message = Some (js ''model unavailable'')\<rparr>"

section \<open>What each operation leaves alone\<close>

lemma showToast_frame [simp]:
  "currentUserId (showToast m t s) = currentUserId s"
  "isAuthReady (showToast m t s) = isAuthReady s"
  "listHidden (showToast m t s) = listHidden s"
  "detailHidden (showToast m t s) = detailHidden s"
  "intervals (showToast m t s) = intervals s"
  "requests (showToast m t s) = requests s"
  "emailsData (showToast m t s) = emailsData s"
  "analytics (showToast m t s) = analytics s"
  "listContent (showToast m t s) = listContent s"
  "sendResponseBtn (showToast m t s) = sendResponseBtn s"
  "aiResponseEditor (showToast m t s) = aiResponseEditor s"
  "detail (showToast m t s) = detail s"
  "seedDbBtn (showToast m t s) = seedDbBtn s"
  "userIdDisplay (showToast m t s) = userIdDisplay s"
  by (simp_all add: showToast_def split: option.split)

lemma consoleLog_frame [simp]:
  "currentUserId (consoleLog l s) = currentUserId s"
  "isAuthReady (consoleLog l s) = isAuthReady s"
  "listHidden (consoleLog l s) = listHidden s"
  "detailHidden (consoleLog l s) = detailHidden s"
  "intervals (consoleLog l s) = intervals s"
  "requests (consoleLog l s) = requests s"
  "emailsData (consoleLog l s) = emailsData s"
  "analytics (consoleLog l s) = analytics s"
  "listContent (consoleLog l s) = listContent s"
  "sendResponseBtn (consoleLog l s) = sendResponseBtn s"
  "aiResponseEditor (consoleLog l s) = aiResponseEditor s"
  "toastContainer (consoleLog l s) = toastContainer s"
  by (simp_all add: consoleLog_def)

lemma issue_frame [simp]:
  "currentUserId (issue q s) = currentUserId s"
  "isAuthReady (issue q s) = isAuthReady s"
  "listHidden (issue q s) = listHidden s"
  "detailHidden (issue q s) = detailHidden s"
  "intervals (issue q s) = intervals s"
  "requests (issue q s) = requests s @ [q]"
  "emailsData (issue q s) = emailsData s"
  "analytics (issue q s) = analytics s"
  "listContent (issue q s) = listContent s"
  "sendResponseBtn (issue q s) = sendResponseBtn s"
  "aiResponseEditor (issue q s) = aiResponseEditor s"
  "toastContainer (issue q s) = toastContainer s"
  "console (issue q s) = console s"
  by (simp_all add: issue_def)

lemma updateAnalytics_frame [simp]:
  "currentUserId (updateAnalytics n a b c d s) = currentUserId s"
  "isAuthReady (updateAnalytics n a b c d s) = isAuthReady s"
  "listHidden (updateAnalytics n a b c d s) = listHidden s"
  "detailHidden (updateAnalytics n a b c d s) = detailHidden s"
  "intervals (updateAnalytics n a b c d s) = intervals s"
  "requests (updateAnalytics n a b c d s) = requests s"
  "emailsData (updateAnalytics n a b c d s) = emailsData s"
  "sendResponseBtn (updateAnalytics n a b c d s) = sendResponseBtn s"
  by (simp_all add: updateAnalytics_def Let_def)

lemma loadEmails_try_frame:
  "loadEmails_try r s = Inr s' \<Longrightarrow>
     currentUserId s' = currentUserId s \<and> isAuthReady s' = isAuthReady s \<and>
     listHidden s' = listHidden s \<and> detailHidden s' = detailHidden s \<and>
     intervals s' = intervals s \<and> sendResponseBtn s' = sendResponseBtn s \<and>
     requests s' = requests s"
  by (auto simp: loadEmails_try_def Let_def showEmptyState_def renderEmailList_def
      split: fetch_result.splits option.splits if_splits)

lemma loadEmails_frame [simp]:
  "currentUserId (loadEmails r s) = currentUserId s"
  "isAuthReady (loadEmails r s) = isAuthReady s"
  "listHidden (loadEmails r s) = listHidden s"
  "detailHidden (loadEmails r s) = detailHidden s"
  "intervals (loadEmails r s) = intervals s"
  "sendResponseBtn (loadEmails r s) = sendResponseBtn s"
  by (auto simp: loadEmails_def Let_def showErrorMessage_def
      dest!: loadEmails_try_frame split: sum.splits)

lemma getAIResponse_frame:
  "getAIResponse b r s = (c, s') \<Longrightarrow>
     currentUserId s' = currentUserId s \<and> isAuthReady s' = isAuthReady s \<and>
     listHidden s' = listHidden s \<and> detailHidden s' = detailHidden s \<and>
     intervals s' = intervals s \<and> aiResponseEditor s' = aiResponseEditor s \<and>
     sendResponseBtn s' = sendResponseBtn s"
  by (auto simp: getAIResponse_def Let_def split: completion.splits)

lemma showEmailDetail_frame [simp]:
  "currentUserId (showEmailDetail e r s) = currentUserId s"
  "isAuthReady (showEmailDetail e r s) = isAuthReady s"
  "listHidden (showEmailDetail e r s) = True"
  "detailHidden (showEmailDetail e r s) = False"
  "intervals (showEmailDetail e r s) = intervals s"
  by (auto simp: showEmailDetail_def Let_def split: prod.splits completion.splits
      dest!: getAIResponse_frame)

lemma goBackBtn_click_frame [simp]:
  "currentUserId (goBackBtn_click r s) = currentUserId s"
  "isAuthReady (goBackBtn_click r s) = isAuthReady s"
  "listHidden (goBackBtn_click r s) = False"
  "detailHidden (goBackBtn_click r s) = True"
  "intervals (goBackBtn_click r s) = intervals s"
  by (simp_all add: goBackBtn_click_def)

lemma sendResponseBtn_click_frame [simp]:
  "currentUserId (sendResponseBtn_click r lr s) = currentUserId s"
  "isAuthReady (sendResponseBtn_click r lr s) = isAuthReady s"
  "intervals (sendResponseBtn_click r lr s) = intervals s"
  by (simp_all add: sendResponseBtn_click_def Let_def split: option.split completion.split)

lemma sendResponseBtn_click_views:
  "listHidden s = (\<not> detailHidden s) \<Longrightarrow>
   listHidden (sendResponseBtn_click r lr s) = (\<not> detailHidden (sendResponseBtn_click r lr s))"
  by (simp add: sendResponseBtn_click_def Let_def split: option.split completion.split)

lemma seedDbBtn_click_frame [simp]:
  "currentUserId (seedDbBtn_click r lr s) = currentUserId s"
  "isAuthReady (seedDbBtn_click r lr s) = isAuthReady s"
  "listHidden (seedDbBtn_click r lr s) = listHidden s"
  "detailHidden (seedDbBtn_click r lr s) = detailHidden s"
  "intervals (seedDbBtn_click r lr s) = intervals s"
  by (simp_all add: seedDbBtn_click_def Let_def split: completion.split)

lemma startPolling_frame [simp]:
  "currentUserId (startPolling s) = currentUserId s"
  "isAuthReady (startPolling s) = isAuthReady s"
  "listHidden (startPolling s) = listHidden s"
  "detailHidden (startPolling s) = detailHidden s"
  "intervals (startPolling s) = intervals s @ [30000]"
  by (simp_all add: startPolling_def)

section \<open>Invariants of the runs\<close>

text \<open>Only the auth callback sets the identity, and it marks the session ready with it.\<close>

lemma handle_unready:
  "\<not> isAuthReady (handle ev s) \<Longrightarrow>
     \<not> isAuthReady s \<and> currentUserId (handle ev s) = currentUserId s"
  by (cases ev)
     (auto simp: onAuthStateChanged_def pollTick_def emailListView_click_def Let_def
       split: option.splits if_splits)

lemma reachable_unready: "reachable s \<Longrightarrow> \<not> isAuthReady s \<Longrightarrow> currentUserId s = None"
proof (induction rule: reachable.induct)
  case (start s)
  then show ?case by (simp add: initial_def)
next
  case (step s ev)
  then show ?case using handle_unready [of ev s] by simp
qed

text \<open>Exactly one of the two views is hidden.\<close>

lemma handle_views:
  "listHidden s = (\<not> detailHidden s) \<Longrightarrow>
     listHidden (handle ev s) = (\<not> detailHidden (handle ev s))"
  by (cases ev)
     (auto simp: onAuthStateChanged_def pollTick_def emailListView_click_def Let_def
       sendResponseBtn_click_views split: option.splits if_splits)

lemma reachable_views: "reachable s \<Longrightarrow> listHidden s = (\<not> detailHidden s)"
proof (induction rule: reachable.induct)
  case (start s)
  then show ?case by (simp add: initial_def)
next
  case (step s ev)
  from step.IH show ?case by (rule handle_views)
qed

lemma reachable_examplePage: "reachable examplePage"
  by (rule reachable.start) (simp add: initial_def examplePage_def)

section \<open>The counts of the analytics\<close>

lemma filter_split_length:
  "length (filter P xs) + length (filter (\<lambda>x. \<not> P x) xs) = length xs"
  by (induction xs) simp_all



text \<open>
  Claim C1. When the session has an identity and the fetch succeeds (a status from 200 to
  299 and a body that parses to the collection \<open>es\<close>), the resolved count and the pending
  count that \<open>loadEmails\<close> computes and displays add up to the total it displays, the
  number of records of \<open>es\<close>. A record counts as pending whenever its status is not the
  string \<open>resolved\<close>, also when it has no status.
\<close>

theorem loadEmails_resolved_plus_pending:
  assumes "truthy (currentUserId s)" and "ok st"
  shows "resolvedCount es + pendingCount es = length es \<and>
         (let a = analytics (loadEmails (Response st (Some es)) s)
          in resolved_count a = resolvedCount es \<and> pending_count a = pendingCount es \<and>
             total_emails a = length es \<and> resolved_count a + pending_count a = total_emails a)"
proof -
  have sum: "resolvedCount es + pendingCount es = length es"
    unfolding resolvedCount_def pendingCount_def by (rule filter_split_length)
  have shown: "analytics (loadEmails (Response st (Some es)) s) =
      analytics (updateAnalytics (length es) (resolvedCount es) (pendingCount es)
         (sentimentCounts es) (priorityCounts es) s)"
    using assms
    by (simp add: loadEmails_def loadEmails_try_def Let_def updateAnalytics_def
        showEmptyState_def renderEmailList_def issue_def)
  show ?thesis
    using sum by (simp add: shown Let_def updateAnalytics_def)
qed

theorem loadEmails_resolved_plus_pending_witness:
  "truthy (currentUserId signedInPage) \<and> ok 200 \<and>
   (let a = analytics (loadEmails (Response 200 (Some [exampleEmail, exampleEmail\<lparr>status := None\<rparr>,
                 exampleEmail\<lparr>status := Some (js ''resolved'')\<rparr>])) signedInPage)
    in resolved_count a = 1 \<and> pending_count a = 2 \<and> total_emails a = 3)"
proof -
  let ?es = "[exampleEmail, exampleEmail\<lparr>status := None\<rparr>,
              exampleEmail\<lparr>status := Some (js ''resolved'')\<rparr>]"
  have h1: "truthy (currentUserId signedInPage)"
    by (simp add: signedInPage_def examplePage_def js_def)
  have h2: "ok 200" by (simp add: ok_def)
  have r: "resolvedCount ?es = 1"
    by (simp add: resolvedCount_def exampleEmail_def js_def)
  have p: "pendingCount ?es = 2"
    by (simp add: pendingCount_def exampleEmail_def js_def)
  show ?thesis
    using loadEmails_resolved_plus_pending [OF h1 h2, of ?es] h1 h2 r p
    by (simp add: Let_def)
qed


text \<open>
  Claim C8. In every state that a run of the script reaches, a call of \<open>loadEmails\<close>
  made while the session is not marked ready, or while it has no identity, only logs:
  the state after it is the state before it with one more line on the console, so no
  request has gone out and the collection, the analytics panel and the list are as
  they were.
\<close>

theorem loadEmails_not_ready_is_noop:
  assumes "reachable s" and "\<not> isAuthReady s \<or> \<not> truthy (currentUserId s)"
  shows "loadEmails r s =
           s\<lparr>console := console s @ [ConsoleLog (js ''Waiting for user authentication...'') None]\<rparr> \<and>
         requests (loadEmails r s) = requests s \<and>
         emailsData (loadEmails r s) = emailsData s \<and>
         analytics (loadEmails r s) = analytics s \<and>
         listContent (loadEmails r s) = listContent s"
proof -
  have "\<not> truthy (currentUserId s)"
    using assms reachable_unready [of s] by auto
  then show ?thesis by (simp add: loadEmails_def consoleLog_def)
qed

theorem loadEmails_not_ready_is_noop_witness:
  "reachable examplePage \<and> \<not> isAuthReady examplePage \<and>
   loadEmails Rejected examplePage =
     examplePage\<lparr>console := [ConsoleLog (js ''Waiting for user authentication...'') None]\<rparr> \<and>
   requests (loadEmails Rejected examplePage) = []"
proof -
  have h2: "\<not> isAuthReady examplePage" by (simp add: examplePage_def)
  have c: "console examplePage = []" "requests examplePage = []"
    by (simp_all add: examplePage_def)
  show ?thesis
    using loadEmails_not_ready_is_noop [OF reachable_examplePage disjI1 [OF h2], of Rejected]
      reachable_examplePage h2 c
    by simp
qed



section \<open>Loading, at work\<close>

lemma loadEmails_success:
  assumes "truthy (currentUserId s)" and "ok st"
  shows "emailsData (loadEmails (Response st (Some es)) s) = es"
    and "analytics (loadEmails (Response st (Some es)) s) =
           analytics (updateAnalytics (length es) (resolvedCount es) (pendingCount es)
             (sentimentCounts es) (priorityCounts es) s)"
  using assms
  by (simp_all add: loadEmails_def loadEmails_try_def Let_def updateAnalytics_def
        showEmptyState_def renderEmailList_def issue_def)

lemma loadEmails_requests:
  "truthy (currentUserId s) \<Longrightarrow>
     requests (loadEmails r s) =
       requests s @ [\<lparr>http_method = ''GET'', url = ''./fetch_emails'', payload = []\<rparr>]"
  by (auto simp: loadEmails_def Let_def showErrorMessage_def
      dest!: loadEmails_try_frame split: sum.splits)

lemma signedInPage_ready: "truthy (currentUserId signedInPage)"
  by (simp add: signedInPage_def examplePage_def js_def)

lemma ok_200: "ok 200"
  by (simp add: ok_def)

lemma emailsData_loadedPage: "emailsData loadedPage = [exampleEmail]"
  unfolding loadedPage_def by (rule loadEmails_success(1) [OF signedInPage_ready ok_200])

lemma listHidden_loadedPage: "listHidden loadedPage = False"
  by (simp add: loadedPage_def signedInPage_def examplePage_def)

section \<open>The polling driver\<close>

lemma handle_intervals:
  "\<exists>k. intervals (handle ev s) = intervals s @ replicate k 30000"
proof (cases ev)
  case (AuthStateChanged user signedIn r)
  show ?thesis
  proof (cases user)
    case None
    then have "intervals (handle ev s) = intervals s @ replicate 0 30000"
      using AuthStateChanged by (simp add: onAuthStateChanged_def Let_def)
    then show ?thesis ..
  next
    case (Some uid)
    then have "intervals (handle ev s) = intervals s @ replicate 1 30000"
      using AuthStateChanged by (simp add: onAuthStateChanged_def Let_def)
    then show ?thesis ..
  qed
next
  case (IntervalTick r)
  then have "intervals (handle ev s) = intervals s @ replicate 0 30000"
    by (simp add: pollTick_def)
  then show ?thesis ..
next
  case (CardClick c r)
  then have "intervals (handle ev s) = intervals s @ replicate 0 30000"
    by (simp add: emailListView_click_def split: option.split)
  then show ?thesis ..
next
  case (GoBackClick r)
  then have "intervals (handle ev s) = intervals s @ replicate 0 30000" by simp
  then show ?thesis ..
next
  case (SendClick r lr)
  then have "intervals (handle ev s) = intervals s @ replicate 0 30000" by simp
  then show ?thesis ..
next
  case (SeedClick r lr)
  then have "intervals (handle ev s) = intervals s @ replicate 0 30000" by simp
  then show ?thesis ..
qed

lemma reachable_periods: "reachable s \<Longrightarrow> \<forall>p \<in> set (intervals s). p = 30000"
proof (induction rule: reachable.induct)
  case (start s)
  then show ?case by (simp add: initial_def)
next
  case (step s ev)
  obtain k where "intervals (handle ev s) = intervals s @ replicate k 30000"
    using handle_intervals by blast
  with step.IH show ?case by auto
qed

lemma run_intervals:
  "\<exists>k. intervals (run evs s) = intervals s @ replicate k 30000"
proof (induction evs arbitrary: s)
  case Nil
  have "intervals (run [] s) = intervals s @ replicate 0 30000" by simp
  then show ?case ..
next
  case (Cons ev evs)
  obtain j where j: "intervals (handle ev s) = intervals s @ replicate j 30000"
    using handle_intervals by blast
  obtain k where k: "intervals (run evs (handle ev s)) = intervals (handle ev s) @ replicate k 30000"
    using Cons.IH by blast
  have "intervals (run (ev # evs) s) = intervals s @ replicate (j + k) 30000"
    by (simp add: j k replicate_add)
  then show ?case ..
qed

text \<open>
  Claim C7. \<open>startPolling\<close> registers one interval with a period of 30000 ms. No
  sequence of events takes an interval away (the handlers leave the registered ones in
  place and add at most intervals of that period), so once one is registered a tick stays
  possible for ever, and in every reachable state each interval has the period 30000. A
  tick runs the callback of \<open>startPolling\<close>: it reloads when the list is not hidden and
  does nothing otherwise. With the list visible and an identity, the tick sends the GET
  for the collection and, when the fetch succeeds, replaces the collection in memory; in
  every reachable state in which the Detail view is showing, the tick returns the state
  it was given.
\<close>

theorem polling_driver:
  "intervals (startPolling s) = intervals s @ [30000] \<and>
   (\<exists>k. intervals (run evs s) = intervals s @ replicate k 30000) \<and>
   (intervals s \<noteq> [] \<longrightarrow> enabled (IntervalTick r') (run evs s)) \<and>
   handle (IntervalTick r) s = pollTick r s \<and>
   handle (IntervalTick r) s = (if listHidden s then s else loadEmails r s) \<and>
   (\<not> listHidden s \<and> truthy (currentUserId s) \<longrightarrow>
      requests (handle (IntervalTick r) s) =
        requests s @ [\<lparr>http_method = ''GET'', url = ''./fetch_emails'', payload = []\<rparr>] \<and>
      (\<forall>st es. r = Response st (Some es) \<and> ok st \<longrightarrow>
         emailsData (handle (IntervalTick r) s) = es)) \<and>
   (reachable s \<longrightarrow> (\<forall>p \<in> set (intervals s). p = 30000) \<and>
                      (\<not> detailHidden s \<longrightarrow> handle (IntervalTick r) s = s))"
proof (intro conjI)
  show "intervals (startPolling s) = intervals s @ [30000]" by simp
  show k: "\<exists>k. intervals (run evs s) = intervals s @ replicate k 30000"
    by (rule run_intervals)
  show "intervals s \<noteq> [] \<longrightarrow> enabled (IntervalTick r') (run evs s)"
    using k by auto
  show "handle (IntervalTick r) s = pollTick r s" by simp
  show "handle (IntervalTick r) s = (if listHidden s then s else loadEmails r s)"
    by (simp add: pollTick_def)
  show "\<not> listHidden s \<and> truthy (currentUserId s) \<longrightarrow>
      requests (handle (IntervalTick r) s) =
        requests s @ [\<lparr>http_method = ''GET'', url = ''./fetch_emails'', payload = []\<rparr>] \<and>
      (\<forall>st es. r = Response st (Some es) \<and> ok st \<longrightarrow>
         emailsData (handle (IntervalTick r) s) = es)"
    by (simp add: pollTick_def loadEmails_requests loadEmails_success(1))
  show "reachable s \<longrightarrow> (\<forall>p \<in> set (intervals s). p = 30000) \<and>
                      (\<not> detailHidden s \<longrightarrow> handle (IntervalTick r) s = s)"
    using reachable_periods [of s] reachable_views [of s] by (simp add: pollTick_def)
qed

lemma pollingPage_facts:
  "reachable pollingPage" "listHidden pollingPage = False"
  "currentUserId pollingPage = Some (js ''u1'')" "intervals pollingPage = [30000]"
  "emailsData pollingPage = [exampleEmail]"
proof -
  show "reachable pollingPage"
    unfolding pollingPage_def by (rule reachable.step [OF reachable_examplePage]) simp
  show "listHidden pollingPage = False"
    by (simp add: pollingPage_def onAuthStateChanged_def Let_def examplePage_def)
  show "currentUserId pollingPage = Some (js ''u1'')"
    by (simp add: pollingPage_def onAuthStateChanged_def Let_def)
  show "intervals pollingPage = [30000]"
    by (simp add: pollingPage_def onAuthStateChanged_def Let_def examplePage_def)
  show "emailsData pollingPage = [exampleEmail]"
    by (simp add: pollingPage_def onAuthStateChanged_def Let_def startPolling_def consoleLog_def
        loadEmails_success(1) ok_200 js_def)
qed

lemma detailPage_facts:
  "reachable detailPage" "detailHidden detailPage = False" "intervals detailPage = [30000]"
proof -
  have f: "find (\<lambda>e. email_id e = js ''x1'') (emailsData pollingPage) = Some exampleEmail"
    unfolding pollingPage_facts(5) by (simp add: exampleEmail_def)
  have d: "detailPage = showEmailDetail exampleEmail Rejected pollingPage"
    unfolding detailPage_def by (simp add: emailListView_click_def f)
  show "reachable detailPage"
    unfolding detailPage_def by (rule reachable.step [OF pollingPage_facts(1)]) simp
  show "detailHidden detailPage = False" unfolding d by simp
  show "intervals detailPage = [30000]" unfolding d by (simp add: pollingPage_facts(4))
qed

theorem polling_driver_witness:
  "reachable pollingPage \<and> \<not> listHidden pollingPage \<and> intervals pollingPage = [30000] \<and>
   emailsData pollingPage = [exampleEmail] \<and>
   emailsData (handle (IntervalTick (Response 200 (Some []))) pollingPage) = [] \<and>
   requests (handle (IntervalTick (Response 200 (Some []))) pollingPage) =
     requests pollingPage @ [\<lparr>http_method = ''GET'', url = ''./fetch_emails'', payload = []\<rparr>] \<and>
   reachable detailPage \<and> \<not> detailHidden detailPage \<and> intervals detailPage = [30000] \<and>
   handle (IntervalTick (Response 200 (Some []))) detailPage = detailPage \<and>
   enabled (IntervalTick Rejected)
     (run [SeedClick Rejected Rejected, GoBackClick Rejected, IntervalTick Rejected] detailPage)"
proof -
  have n: "intervals detailPage \<noteq> []" by (simp add: detailPage_facts(3))
  have t: "truthy (currentUserId pollingPage)"
    by (simp add: pollingPage_facts(3) js_def)
  have a: "emailsData (handle (IntervalTick (Response 200 (Some []))) pollingPage) = []"
      "requests (handle (IntervalTick (Response 200 (Some []))) pollingPage) =
         requests pollingPage @ [\<lparr>http_method = ''GET'', url = ''./fetch_emails'', payload = []\<rparr>]"
    using polling_driver [of pollingPage "[]" Rejected "Response 200 (Some [])"] t pollingPage_facts(2) ok_200
    by blast+
  have b: "handle (IntervalTick (Response 200 (Some []))) detailPage = detailPage"
      "enabled (IntervalTick Rejected)
        (run [SeedClick Rejected Rejected, GoBackClick Rejected, IntervalTick Rejected] detailPage)"
    using polling_driver [of detailPage
        "[SeedClick Rejected Rejected, GoBackClick Rejected, IntervalTick Rejected]"
        Rejected "Response 200 (Some [])"]
      detailPage_facts n by blast+
  show ?thesis
    using a b pollingPage_facts detailPage_facts by simp
qed

section \<open>The bars of the analytics panel\<close>

text \<open>
  Claim C5. The resolved bar is set to \<open>resolved / total * 100\<close>, and to 0 when the
  total is 0. The sentiment and the priority bars are only written when their category
  total is positive; with a category total of 0 they are not set to 0 but keep the
  widths of the load before. After a load of one positive, urgent record and then a load
  of the empty collection, the panel shows 0 emails and a resolved bar of 0, and still a
  positive-sentiment bar and an urgent bar of 100.
\<close>

theorem stale_bars_after_empty_reload:
  "(let s1 = loadEmails (Response 200 (Some [exampleEmail])) signedInPage;
        s2 = loadEmails (Response 200 (Some [])) s1
    in sentiment_positive_bar (analytics s1) = 100 \<and> priority_urgent_bar (analytics s1) = 100 \<and>
       total_emails (analytics s2) = 0 \<and> resolved_bar (analytics s2) = 0 \<and>
       sentiment_positive_bar (analytics s2) = 100 \<and> priority_urgent_bar (analytics s2) = 100)"
proof -
  let ?s1 = "loadEmails (Response 200 (Some [exampleEmail])) signedInPage"
  have t1: "truthy (currentUserId ?s1)" using signedInPage_ready by simp
  have c1: "sentimentCounts [exampleEmail] = \<lparr>positive = 1, neutral = 0, negative = 0\<rparr>"
    by (simp add: sentimentCounts_def sentimentLower_def exampleEmail_def toLowerCase_def
        lowerUnit_def js_def)
  have c2: "priorityCounts [exampleEmail] = \<lparr>urgent = 1, notUrgent = 0\<rparr>"
    by (simp add: priorityCounts_def priorityLower_def exampleEmail_def toLowerCase_def
        lowerUnit_def js_def)
  have a1: "sentiment_positive_bar (analytics ?s1) = 100" "priority_urgent_bar (analytics ?s1) = 100"
    by (simp_all add: loadEmails_success(2) [OF signedInPage_ready ok_200] c1 c2
        updateAnalytics_def Let_def percentage_def)
  have a2: "total_emails (analytics (loadEmails (Response 200 (Some [])) ?s1)) = 0"
       "resolved_bar (analytics (loadEmails (Response 200 (Some [])) ?s1)) = 0"
       "sentiment_positive_bar (analytics (loadEmails (Response 200 (Some [])) ?s1)) =
          sentiment_positive_bar (analytics ?s1)"
       "priority_urgent_bar (analytics (loadEmails (Response 200 (Some [])) ?s1)) =
          priority_urgent_bar (analytics ?s1)"
    by (simp_all add: loadEmails_success(2) [OF t1 ok_200] updateAnalytics_def Let_def
        sentimentCounts_def priorityCounts_def)
  show ?thesis using a1 a2 by (simp add: Let_def)
qed

section \<open>Clicking a card\<close>

text \<open>
  Claim C6, as stated, at the identifier \<open>abc123\<close> on a page whose collection does not
  have it: the lookup yields nothing and the listener of the source returns the state
  unchanged, which the unguarded listener does not (it switches the views).
\<close>

theorem unknown_card_click_is_guarded:
  "find (\<lambda>e. email_id e = js ''abc123'') (emailsData loadedPage) = None \<and>
   emailListView_click (Some (js ''abc123'')) Rejected loadedPage = loadedPage \<and>
   emailListView_click_unguarded (Some (js ''abc123'')) Rejected loadedPage \<noteq> loadedPage"
proof -
  have f: "find (\<lambda>e. email_id e = js ''abc123'') (emailsData loadedPage) = None"
    by (simp add: emailsData_loadedPage exampleEmail_def js_def)
  have g: "emailListView_click (Some (js ''abc123'')) Rejected loadedPage = loadedPage"
    by (simp add: emailListView_click_def f)
  have "listHidden (emailListView_click_unguarded (Some (js ''abc123'')) Rejected loadedPage) = True"
    by (simp add: emailListView_click_unguarded_def f showEmailDetail_undefined_def Let_def)
  then have u: "emailListView_click_unguarded (Some (js ''abc123'')) Rejected loadedPage \<noteq> loadedPage"
    using listHidden_loadedPage by auto
  show ?thesis using f g u by simp
qed

text \<open>
  Claim C6, amended. A click on a card whose identifier no record of the collection in
  memory has is ignored: the lookup yields nothing, \<open>showEmailDetail\<close> is not called and
  the state stays as it was (the list visible, the Detail view hidden, no request sent).
  The source guards this path with \<open>if (email)\<close>.
\<close>

theorem unknown_card_click_is_ignored:
  assumes "\<forall>e \<in> set (emailsData s). email_id e \<noteq> emailId"
  shows "find (\<lambda>e. email_id e = emailId) (emailsData s) = None \<and>
         emailListView_click (Some emailId) r s = s"
proof -
  have "find (\<lambda>e. email_id e = emailId) (emailsData s) = None"
    using assms by (simp add: find_None_iff)
  then show ?thesis by (simp add: emailListView_click_def)
qed

theorem unknown_card_click_is_ignored_witness:
  "emailsData loadedPage = [exampleEmail] \<and> email_id exampleEmail \<noteq> js ''abc123'' \<and>
   find (\<lambda>e. email_id e = js ''abc123'') (emailsData loadedPage) = None \<and>
   emailListView_click (Some (js ''abc123'')) Rejected loadedPage = loadedPage"
proof -
  have n: "email_id exampleEmail \<noteq> js ''abc123''"
    by (simp add: exampleEmail_def js_def)
  then have h: "\<forall>e \<in> set (emailsData loadedPage). email_id e \<noteq> js ''abc123''"
    by (simp add: emailsData_loadedPage)
  show ?thesis
    using unknown_card_click_is_ignored [OF h, of Rejected] n emailsData_loadedPage by simp
qed

section \<open>Requesting a draft and submitting a response\<close>

lemma showToast_touches:
  "\<exists>tc c. showToast m t s = s\<lparr>toastContainer := tc, console := c\<rparr>"
proof (cases "toastContainer s")
  case None
  then have "showToast m t s = s\<lparr>toastContainer := toastContainer s,
      console := console s @ [ConsoleError (js ''Toast container not found.'') None]\<rparr>"
    by (simp add: showToast_def)
  then show ?thesis by blast
next
  case (Some ts)
  obtain tc where "showToast m t s = s\<lparr>toastContainer := tc\<rparr>"
    using Some by (simp add: showToast_def)
  then have "showToast m t s = s\<lparr>toastContainer := tc, console := console s\<rparr>"
    by simp
  then show ?thesis by blast
qed

text \<open>
  Claim C3. When the text of the editor is empty after trimming, the click on the send
  button does one thing: it calls \<open>showToast\<close> with the warning. No request is issued,
  and nothing of the state changes but what the notification writes (the toast container
  or, on a page without one, the console); on a page with a toast container the warning
  toast is appended to it. So a request goes out only when the trimmed text is not empty.
\<close>

theorem blank_response_rejected_locally:
  assumes "aiResponseEditor s = Some ed" and "trim (editor_value ed) = []"
  shows "sendResponseBtn_click r lr s =
           showToast (js ''Please write a response before sending. '' @ [0x26A0, 0xFE0F]) ToastWarning s \<and>
         requests (sendResponseBtn_click r lr s) = requests s \<and>
         (\<exists>tc c. sendResponseBtn_click r lr s = s\<lparr>toastContainer := tc, console := c\<rparr>) \<and>
         (\<forall>ts. toastContainer s = Some ts \<longrightarrow>
            sendResponseBtn_click r lr s =
              s\<lparr>toastContainer := Some (ts @
                 [\<lparr>bgColor = ''bg-yellow-500'', icon = [0x26A0, 0xFE0F],
                   toast_message = js ''Please write a response before sending. '' @ [0x26A0, 0xFE0F]\<rparr>])\<rparr>)"
proof -
  let ?w = "js ''Please write a response before sending. '' @ [0x26A0, 0xFE0F]"
  have eq: "sendResponseBtn_click r lr s = showToast ?w ToastWarning s"
    using assms by (simp add: sendResponseBtn_click_def Let_def)
  have a: "requests (showToast ?w ToastWarning s) = requests s" by simp
  have b: "\<exists>tc c. showToast ?w ToastWarning s = s\<lparr>toastContainer := tc, console := c\<rparr>"
    by (rule showToast_touches)
  have c: "\<forall>ts. toastContainer s = Some ts \<longrightarrow>
       showToast ?w ToastWarning s =
              s\<lparr>toastContainer := Some (ts @
                 [\<lparr>bgColor = ''bg-yellow-500'', icon = [0x26A0, 0xFE0F], toast_message = ?w\<rparr>])\<rparr>"
    by (simp add: showToast_def)
  show ?thesis unfolding eq using a b c by blast
qed

theorem blank_response_rejected_locally_witness:
  "aiResponseEditor blankDraftPage = Some \<lparr>editor_value = [32, 9, 160, 10], editor_disabled = False\<rparr> \<and>
   trim [32, 9, 160, 10] = [] \<and>
   requests (sendResponseBtn_click Rejected Rejected blankDraftPage) = [] \<and>
   toastContainer (sendResponseBtn_click Rejected Rejected blankDraftPage) =
     Some [\<lparr>bgColor = ''bg-yellow-500'', icon = [0x26A0, 0xFE0F],
            toast_message = js ''Please write a response before sending. '' @ [0x26A0, 0xFE0F]\<rparr>]"
proof -
  let ?ed = "\<lparr>editor_value = [32, 9, 160, 10], editor_disabled = False\<rparr>"
  have h1: "aiResponseEditor blankDraftPage = Some ?ed" by (simp add: blankDraftPage_def)
  have h2: "trim (editor_value ?ed) = []" by (simp add: trim_def isWhiteSpace_def)
  have t: "toastContainer blankDraftPage = Some []" "requests blankDraftPage = []"
    by (simp_all add: blankDraftPage_def signedInPage_def examplePage_def)
  have "requests (sendResponseBtn_click Rejected Rejected blankDraftPage) = requests blankDraftPage"
    and "sendResponseBtn_click Rejected Rejected blankDraftPage =
      blankDraftPage\<lparr>toastContainer := Some ([] @
         [\<lparr>bgColor = ''bg-yellow-500'', icon = [0x26A0, 0xFE0F],
           toast_message = js ''Please write a response before sending. '' @ [0x26A0, 0xFE0F]\<rparr>])\<rparr>"
    using blank_response_rejected_locally [OF h1 h2, of Rejected Rejected] t(1) by blast+
  then show ?thesis
    using h1 h2 t(2) by simp
qed

text \<open>
  Claim C4. \<open>getAIResponse\<close> returns for every input and every outcome of the backend; it
  never throws. When the fetch is rejected, the HTTP status is not a success, the body
  does not parse or the status of the payload is not \<open>success\<close>, it returns the string
  \<open>Failed to generate AI response. Please try again.\<close>, after logging the error and
  calling \<open>showToast\<close> with the error notification: on a page with a toast container the
  state afterwards is the state before with the request sent, the error on the console
  and the red toast with the message appended to the container. On a success it returns
  the \<open>ai_response\<close> of the payload and only the request has been added to the state.
\<close>

theorem getAIResponse_never_throws:
  "(\<exists>v. fst (getAIResponse b r s) = Returns v) \<and>
   (r = Rejected \<or> (\<exists>st p. r = Response st p \<and> \<not> ok st) \<or> (\<exists>st. r = Response st None) \<or>
    (\<exists>st d. r = Response st (Some d) \<and> reply_status d \<noteq> Some (js ''success'')) \<longrightarrow>
      fst (getAIResponse b r s) =
        Returns (Some (js ''Failed to generate AI response. Please try again.'')) \<and>
      (\<exists>err. snd (getAIResponse b r s) =
         showToast (js ''Failed to generate AI response. '' @ [0xD83D, 0xDEAB]) ToastError
           (consoleLog (ConsoleError (js ''Error generating AI response:'') (Some err))
              (issue \<lparr>http_method = ''POST'', url = ''./generate_response'',
                       payload = [(''email_body'', b)]\<rparr> s)) \<and>
         (\<forall>ts. toastContainer s = Some ts \<longrightarrow>
            snd (getAIResponse b r s) =
              s\<lparr>requests := requests s @ [\<lparr>http_method = ''POST'', url = ''./generate_response'',
                                            payload = [(''email_body'', b)]\<rparr>],
                console := console s @
                  [ConsoleError (js ''Error generating AI response:'') (Some err)],
                toastContainer := Some (ts @
                  [\<lparr>bgColor = ''bg-red-500'', icon = [0xD83D, 0xDEAB],
                    toast_message = js ''Failed to generate AI response. '' @ [0xD83D, 0xDEAB]\<rparr>])\<rparr>))) \<and>
   (\<forall>st d. r = Response st (Some d) \<and> ok st \<and> reply_status d = Some (js ''success'') \<longrightarrow>
      fst (getAIResponse b r s) = Returns (ai_response d) \<and>
      snd (getAIResponse b r s) =
        issue \<lparr>http_method = ''POST'', url = ''./generate_response'',
                payload = [(''email_body'', b)]\<rparr> s)"
proof (intro conjI)
  show "\<exists>v. fst (getAIResponse b r s) = Returns v"
    by (cases "getAIResponse_try r") (simp_all add: getAIResponse_def Let_def)
next
  show "r = Rejected \<or> (\<exists>st p. r = Response st p \<and> \<not> ok st) \<or> (\<exists>st. r = Response st None) \<or>
    (\<exists>st d. r = Response st (Some d) \<and> reply_status d \<noteq> Some (js ''success'')) \<longrightarrow>
      fst (getAIResponse b r s) =
        Returns (Some (js ''Failed to generate AI response. Please try again.'')) \<and>
      (\<exists>err. snd (getAIResponse b r s) =
         showToast (js ''Failed to generate AI response. '' @ [0xD83D, 0xDEAB]) ToastError
           (consoleLog (ConsoleError (js ''Error generating AI response:'') (Some err))
              (issue \<lparr>http_method = ''POST'', url = ''./generate_response'',
                       payload = [(''email_body'', b)]\<rparr> s)) \<and>
         (\<forall>ts. toastContainer s = Some ts \<longrightarrow>
            snd (getAIResponse b r s) =
              s\<lparr>requests := requests s @ [\<lparr>http_method = ''POST'', url = ''./generate_response'',
                                            payload = [(''email_body'', b)]\<rparr>],
                console := console s @
                  [ConsoleError (js ''Error generating AI response:'') (Some err)],
                toastContainer := Some (ts @
                  [\<lparr>bgColor = ''bg-red-500'', icon = [0xD83D, 0xDEAB],
                    toast_message = js ''Failed to generate AI response. '' @ [0xD83D, 0xDEAB]\<rparr>])\<rparr>))"
  proof
    assume "r = Rejected \<or> (\<exists>st p. r = Response st p \<and> \<not> ok st) \<or> (\<exists>st. r = Response st None) \<or>
      (\<exists>st d. r = Response st (Some d) \<and> reply_status d \<noteq> Some (js ''success''))"
    then have "\<exists>err. getAIResponse_try r = Throws err"
      by (auto simp: getAIResponse_try_def)
    then obtain err where e: "getAIResponse_try r = Throws err" ..
    let ?rq = "\<lparr>http_method = ''POST'', url = ''./generate_response'',
                 payload = [(''email_body'', b)]\<rparr>"
    let ?m = "js ''Failed to generate AI response. '' @ [0xD83D, 0xDEAB]"
    have r1: "fst (getAIResponse b r s) =
        Returns (Some (js ''Failed to generate AI response. Please try again.''))"
      using e by (simp add: getAIResponse_def Let_def fallbackResponse_def)
    have r2: "snd (getAIResponse b r s) =
         showToast ?m ToastError
           (consoleLog (ConsoleError (js ''Error generating AI response:'') (Some err)) (issue ?rq s))"
      using e by (simp add: getAIResponse_def Let_def)
    have r3: "\<forall>ts. toastContainer s = Some ts \<longrightarrow>
            snd (getAIResponse b r s) =
              s\<lparr>requests := requests s @ [?rq],
                console := console s @
                  [ConsoleError (js ''Error generating AI response:'') (Some err)],
                toastContainer := Some (ts @
                  [\<lparr>bgColor = ''bg-red-500'', icon = [0xD83D, 0xDEAB], toast_message = ?m\<rparr>])\<rparr>"
      unfolding r2 by (simp add: showToast_def consoleLog_def issue_def)
    show "fst (getAIResponse b r s) =
        Returns (Some (js ''Failed to generate AI response. Please try again.'')) \<and>
      (\<exists>err. snd (getAIResponse b r s) =
         showToast ?m ToastError
           (consoleLog (ConsoleError (js ''Error generating AI response:'') (Some err)) (issue ?rq s)) \<and>
         (\<forall>ts. toastContainer s = Some ts \<longrightarrow>
            snd (getAIResponse b r s) =
              s\<lparr>requests := requests s @ [?rq],
                console := console s @
                  [ConsoleError (js ''Error generating AI response:'') (Some err)],
                toastContainer := Some (ts @
                  [\<lparr>bgColor = ''bg-red-500'', icon = [0xD83D, 0xDEAB], toast_message = ?m\<rparr>])\<rparr>))"
      using r1 r2 r3 by blast
  qed
next
  show "\<forall>st d. r = Response st (Some d) \<and> ok st \<and> reply_status d = Some (js ''success'') \<longrightarrow>
      fst (getAIResponse b r s) = Returns (ai_response d) \<and>
      snd (getAIResponse b r s) =
        issue \<lparr>http_method = ''POST'', url = ''./generate_response'',
                payload = [(''email_body'', b)]\<rparr> s"
    by (simp add: getAIResponse_def getAIResponse_try_def Let_def)
qed

theorem getAIResponse_never_throws_witness:
  "fst (getAIResponse (Some (js ''hi'')) Rejected signedInPage) =
     Returns (Some (js ''Failed to generate AI response. Please try again.'')) \<and>
   toastContainer (snd (getAIResponse (Some (js ''hi'')) Rejected signedInPage)) =
     Some [\<lparr>bgColor = ''bg-red-500'', icon = [0xD83D, 0xDEAB],
            toast_message = js ''Failed to generate AI response. '' @ [0xD83D, 0xDEAB]\<rparr>] \<and>
   fst (getAIResponse (Some (js ''hi'')) (Response 500 (Some successReply)) signedInPage) =
     Returns (Some (js ''Failed to generate AI response. Please try again.'')) \<and>
   toastContainer (snd (getAIResponse (Some (js ''hi'')) (Response 500 (Some successReply))
                          signedInPage)) =
     Some [\<lparr>bgColor = ''bg-red-500'', icon = [0xD83D, 0xDEAB],
            toast_message = js ''Failed to generate AI response. '' @ [0xD83D, 0xDEAB]\<rparr>] \<and>
   fst (getAIResponse (Some (js ''hi'')) (Response 200 (Some errorReply)) signedInPage) =
     Returns (Some (js ''Failed to generate AI response. Please try again.'')) \<and>
   toastContainer (snd (getAIResponse (Some (js ''hi'')) (Response 200 (Some errorReply))
                          signedInPage)) =
     Some [\<lparr>bgColor = ''bg-red-500'', icon = [0xD83D, 0xDEAB],
            toast_message = js ''Failed to generate AI response. '' @ [0xD83D, 0xDEAB]\<rparr>] \<and>
   fst (getAIResponse (Some (js ''hi'')) (Response 200 (Some successReply)) signedInPage) =
     Returns (Some (js ''Dear Ann'')) \<and>
   toastContainer (snd (getAIResponse (Some (js ''hi'')) (Response 200 (Some successReply))
                          signedInPage)) = Some []"
proof -
  let ?b = "Some (js ''hi'')"
  let ?fallback = "Returns (Some (js ''Failed to generate AI response. Please try again.''))"
  let ?red = "\<lparr>bgColor = ''bg-red-500'', icon = [0xD83D, 0xDEAB],
               toast_message = js ''Failed to generate AI response. '' @ [0xD83D, 0xDEAB]\<rparr>"
  have c: "toastContainer signedInPage = Some []"
    by (simp add: signedInPage_def examplePage_def)
  have failing: "fst (getAIResponse ?b r signedInPage) = ?fallback \<and>
      toastContainer (snd (getAIResponse ?b r signedInPage)) = Some [?red]"
    if bad: "r = Rejected \<or> (\<exists>st p. r = Response st p \<and> \<not> ok st) \<or> (\<exists>st. r = Response st None) \<or>
      (\<exists>st d. r = Response st (Some d) \<and> reply_status d \<noteq> Some (js ''success''))" for r
  proof -
    from getAIResponse_never_throws [of ?b r signedInPage] bad
    have ret: "fst (getAIResponse ?b r signedInPage) = ?fallback"
      and "\<exists>err. \<forall>ts. toastContainer signedInPage = Some ts \<longrightarrow>
            snd (getAIResponse ?b r signedInPage) =
              signedInPage\<lparr>requests := requests signedInPage @
                  [\<lparr>http_method = ''POST'', url = ''./generate_response'',
                    payload = [(''email_body'', ?b)]\<rparr>],
                console := console signedInPage @
                  [ConsoleError (js ''Error generating AI response:'') (Some err)],
                toastContainer := Some (ts @ [?red])\<rparr>"
      by blast+
    then obtain err where "snd (getAIResponse ?b r signedInPage) =
              signedInPage\<lparr>requests := requests signedInPage @
                  [\<lparr>http_method = ''POST'', url = ''./generate_response'',
                    payload = [(''email_body'', ?b)]\<rparr>],
                console := console signedInPage @
                  [ConsoleError (js ''Error generating AI response:'') (Some err)],
                toastContainer := Some ([] @ [?red])\<rparr>"
      using c by blast
    then have "toastContainer (snd (getAIResponse ?b r signedInPage)) = Some [?red]"
      by simp
    with ret show ?thesis by simp
  qed
  have n: "\<not> ok 500" by (simp add: ok_def)
  have e: "reply_status errorReply \<noteq> Some (js ''success'')"
    by (simp add: errorReply_def js_def)
  have s: "reply_status successReply = Some (js ''success'')"
          "ai_response successReply = Some (js ''Dear Ann'')"
    by (simp_all add: successReply_def)
  have f1: "fst (getAIResponse ?b Rejected signedInPage) = ?fallback \<and>
      toastContainer (snd (getAIResponse ?b Rejected signedInPage)) = Some [?red]"
    by (rule failing) simp
  have f2: "fst (getAIResponse ?b (Response 500 (Some successReply)) signedInPage) = ?fallback \<and>
      toastContainer (snd (getAIResponse ?b (Response 500 (Some successReply)) signedInPage)) =
        Some [?red]"
    by (rule failing) (simp add: n)
  have f3: "fst (getAIResponse ?b (Response 200 (Some errorReply)) signedInPage) = ?fallback \<and>
      toastContainer (snd (getAIResponse ?b (Response 200 (Some errorReply)) signedInPage)) =
        Some [?red]"
    by (rule failing) (simp add: e)
  have "fst (getAIResponse ?b (Response 200 (Some successReply)) signedInPage) =
        Returns (ai_response successReply)"
    and "snd (getAIResponse ?b (Response 200 (Some successReply)) signedInPage) =
        issue \<lparr>http_method = ''POST'', url = ''./generate_response'',
                payload = [(''email_body'', ?b)]\<rparr> signedInPage"
    using getAIResponse_never_throws [of ?b "Response 200 (Some successReply)" signedInPage] s(1) ok_200 by blast+
  then have f4: "fst (getAIResponse ?b (Response 200 (Some successReply)) signedInPage) =
        Returns (Some (js ''Dear Ann'')) \<and>
      toastContainer (snd (getAIResponse ?b (Response 200 (Some successReply)) signedInPage)) =
        Some []"
    using s(2) c by simp
  show ?thesis using f1 f2 f3 f4 by blast
qed

text \<open>
  Claim C10. When the text of the editor is not empty after trimming, then whatever the
  outcome of the POST and of the reload that follows a success, the send button is
  enabled and labelled \<open>Send Response\<close> when the listener has run.
\<close>

theorem send_control_restored:
  assumes "aiResponseEditor s = Some ed" and "trim (editor_value ed) \<noteq> []"
  shows "disabled (sendResponseBtn (sendResponseBtn_click r lr s)) = False \<and>
         textContent (sendResponseBtn (sendResponseBtn_click r lr s)) = js ''Send Response''"
  using assms by (simp add: sendResponseBtn_click_def Let_def)

theorem send_control_restored_witness:
  "aiResponseEditor draftPage = Some \<lparr>editor_value = js ''Dear Ann, sorry.'', editor_disabled = False\<rparr> \<and>
   trim (js ''Dear Ann, sorry.'') \<noteq> [] \<and>
   disabled (sendResponseBtn (sendResponseBtn_click (Response 200 (Some successReply))
                                 (Response 200 (Some [])) draftPage)) = False \<and>
   textContent (sendResponseBtn (sendResponseBtn_click (Response 200 (Some errorReply))
                                 Rejected draftPage)) = js ''Send Response'' \<and>
   disabled (sendResponseBtn (sendResponseBtn_click Rejected Rejected draftPage)) = False"
proof -
  let ?ed = "\<lparr>editor_value = js ''Dear Ann, sorry.'', editor_disabled = False\<rparr>"
  have h1: "aiResponseEditor draftPage = Some ?ed" by (simp add: draftPage_def)
  have t: "trim (js ''Dear Ann, sorry.'') \<noteq> []"
    by (simp add: trim_def isWhiteSpace_def js_def)
  then have h2: "trim (editor_value ?ed) \<noteq> []" by simp
  show ?thesis
    using send_control_restored [OF h1 h2, of "Response 200 (Some successReply)" "Response 200 (Some [])"]
      send_control_restored [OF h1 h2, of "Response 200 (Some errorReply)" Rejected]
      send_control_restored [OF h1 h2, of Rejected Rejected] h1 t
    by simp
qed

end
